theory Spec2Isabelle
  imports Main "HOL-Library.Word"
begin

section \<open>Credential providers (api/client/credentials.go)\<close>

subsection \<open>Errors\<close>

text \<open>
  The error values that reach a caller of the credential providers. The first two are the
  \<^verbatim>\<open>trace\<close> constructors the source calls itself. The next four stand for errors
  produced outside the source file (a failed file read, its conversion by
  \<^verbatim>\<open>trace.ConvertSystemError\<close>, a decoder's complaint). \<open>RuntimePanic\<close> is not a
  returned value: it marks a run that panics on a nil pointer dereference.
\<close>

datatype error =
    NotImplemented string
  | BadParameter string
  | NotFound string
  | AccessDenied string
  | PathError string
  | OtherError string
  | RuntimePanic

text \<open>\<^verbatim>\<open>err.Error()\<close>, which is what the format verb \<^verbatim>\<open>%v\<close> prints.\<close>

fun Error :: "error \<Rightarrow> string" where
  "Error (NotImplemented m) = m"
| "Error (BadParameter m) = m"
| "Error (NotFound m) = m"
| "Error (AccessDenied m) = m"
| "Error (PathError m) = m"
| "Error (OtherError m) = m"
| "Error RuntimePanic = ''runtime error: invalid memory address or nil pointer dereference''"

text \<open>
  \<^verbatim>\<open>trace.Wrap\<close> attaches a stack trace and keeps the error it wraps: kind and message
  are those of the argument.
\<close>

definition Wrap :: "error \<Rightarrow> error" where
  "Wrap err = err"

subsection \<open>TLS configurations\<close>

type_synonym bytes = "8 word list"

record tls_Certificate =
  Certificate :: "bytes list"
  PrivateKey :: bytes

record CertificateRequestInfo =
  AcceptableCAs :: "bytes list"
  SignatureSchemes :: "16 word list"
  Version :: "16 word"

type_synonym CertPool = "bytes list"

text \<open>
  The fields of \<^verbatim>\<open>tls.Config\<close> that the source reads or writes. A nil slice and an
  empty slice are both \<open>[]\<close> (the source only takes their length); a nil callback and a
  nil pool are \<open>None\<close>.
\<close>

record tls_Config =
  Certificates :: "tls_Certificate list"
  GetClientCertificate :: "(CertificateRequestInfo \<Rightarrow> error + tls_Certificate) option"
  RootCAs :: "CertPool option"
  NextProtos :: "string list"
  ServerName :: string

text \<open>
  \<^verbatim>\<open>*tls.Config\<close> is a pointer: \<open>None\<close> is nil, \<open>Some a\<close> the address of a
  configuration in the store. The store is the list of configurations allocated so far
  and an allocation appends to it, so a fresh address never aliases an old one.
\<close>

type_synonym addr = nat
type_synonym heap = "tls_Config list"

definition new :: "tls_Config \<Rightarrow> heap \<Rightarrow> addr \<times> heap" where
  "new v h = (length h, h @ [v])"

text \<open>\<^verbatim>\<open>c.Clone()\<close> on a non-nil receiver: a fresh configuration with the fields of \<open>c\<close>.\<close>

definition Clone :: "addr \<Rightarrow> heap \<Rightarrow> addr \<times> heap" where
  "Clone c h = new (h ! c) h"

subsection \<open>What the source file takes from elsewhere\<close>

typedecl ContextDialer

text \<open>
  The constants and functions that \<^verbatim>\<open>credentials.go\<close> imports: the two string
  constants, the standard library's key-pair loader, file reader and PEM parser of a
  certificate pool, \<^verbatim>\<open>trace.ConvertSystemError\<close>, and the identity-file decoder with its
  two accessors. A call that returns \<^verbatim>\<open>(value, error)\<close> is a sum, \<open>Inl\<close> the error.
  An identity file yields a freshly built configuration (or nil), which the caller
  places in the store.
\<close>

record ('idf, 'ssh) env =
  APIDomain :: string
  NextProtoTLS :: string
  LoadX509KeyPair :: "string \<Rightarrow> string \<Rightarrow> error + tls_Certificate"
  ReadFile :: "string \<Rightarrow> error + bytes"
  ConvertSystemError :: "error \<Rightarrow> error"
  AppendCertsFromPEM :: "CertPool \<Rightarrow> bytes \<Rightarrow> bool \<times> CertPool"
  ReadIdentityFile :: "string \<Rightarrow> error + 'idf"
  IdentityFile_TLSConfig :: "'idf \<Rightarrow> error + tls_Config option"
  IdentityFile_SSHClientConfig :: "'idf \<Rightarrow> error + 'ssh"

definition NewCertPool :: CertPool where
  "NewCertPool = []"

subsection \<open>configure\<close>

text \<open>
  \<^verbatim>\<open>configure(c *tls.Config) *tls.Config\<close>. Every write goes to the address that
  \<open>Clone\<close> returned. A nil argument makes the first field write panic; an address
  outside the store cannot arise in Go and is treated the same way.
\<close>

definition configure :: "('idf, 'ssh) env \<Rightarrow> addr option \<Rightarrow> heap \<Rightarrow> (error + addr) \<times> heap" where
  "configure E c h =
     (case c of
        None \<Rightarrow> (Inl RuntimePanic, h)
      | Some a \<Rightarrow>
          if \<not> a < length h then (Inl RuntimePanic, h)
          else
            let (tlsConfig, h) = Clone a h;
                h = h[tlsConfig := (h ! tlsConfig)\<lparr>NextProtos := [NextProtoTLS E]\<rparr>];
                h = (if ServerName (h ! tlsConfig) = ''''
                     then h[tlsConfig := (h ! tlsConfig)\<lparr>ServerName := APIDomain E\<rparr>]
                     else h);
                h = (if length (Certificates (h ! tlsConfig)) > 0
                     then
                       let cert = Certificates (h ! tlsConfig) ! 0;
                           h = h[tlsConfig := (h ! tlsConfig)\<lparr>Certificates := []\<rparr>]
                       in h[tlsConfig := (h ! tlsConfig)
                              \<lparr>GetClientCertificate := Some (\<lambda>_. Inr cert)\<rparr>]
                     else h)
            in (Inr tlsConfig, h))"

subsection \<open>The three credential sources\<close>

datatype Credentials =
    TLSConfigCreds "addr option"
  | KeyPairCreds string string string
  | IdentityCreds string

definition LoadTLS :: "addr option \<Rightarrow> Credentials" where
  "LoadTLS tlsConfig = TLSConfigCreds tlsConfig"

definition LoadKeyPair :: "string \<Rightarrow> string \<Rightarrow> string \<Rightarrow> Credentials" where
  "LoadKeyPair certFile keyFile caFile = KeyPairCreds certFile keyFile caFile"

definition LoadIdentityFile :: "string \<Rightarrow> Credentials" where
  "LoadIdentityFile path = IdentityCreds path"

fun Dialer :: "Credentials \<Rightarrow> error + ContextDialer" where
  "Dialer (TLSConfigCreds tlsConfig) = Inl (NotImplemented ''no dialer'')"
| "Dialer (KeyPairCreds certFile keyFile caFile) = Inl (NotImplemented ''no dialer'')"
| "Dialer (IdentityCreds path) = Inl (NotImplemented ''no dialer'')"

fun TLSConfig :: "('idf, 'ssh) env \<Rightarrow> Credentials \<Rightarrow> heap \<Rightarrow> (error + addr) \<times> heap" where
  "TLSConfig E (TLSConfigCreds tlsConfig) h =
     (if tlsConfig = None then (Inl (BadParameter ''tls config is nil''), h)
      else configure E tlsConfig h)"
| "TLSConfig E (KeyPairCreds certFile keyFile caFile) h =
     (case LoadX509KeyPair E certFile keyFile of
        Inl err \<Rightarrow> (Inl (Wrap err), h)
      | Inr cert \<Rightarrow>
          (case ReadFile E caFile of
             Inl err \<Rightarrow> (Inl (ConvertSystemError E err), h)
           | Inr cas \<Rightarrow>
               let pool = NewCertPool;
                   (ok, pool) = AppendCertsFromPEM E pool cas
               in if \<not> ok then (Inl (BadParameter ''invalid TLS CA cert PEM''), h)
                  else
                    let (p, h) = new \<lparr>Certificates = [cert], GetClientCertificate = None,
                                       RootCAs = Some pool, NextProtos = [],
                                       ServerName = ''''\<rparr> h
                    in configure E (Some p) h))"
| "TLSConfig E (IdentityCreds path) h =
     (case ReadIdentityFile E path of
        Inl err \<Rightarrow>
          (Inl (BadParameter (''identity file could not be decoded: '' @ Error err)), h)
      | Inr identityFile \<Rightarrow>
          (case IdentityFile_TLSConfig E identityFile of
             Inl err \<Rightarrow> (Inl (Wrap err), h)
           | Inr None \<Rightarrow> configure E None h
           | Inr (Some v) \<Rightarrow> let (tlsConfig, h) = new v h in configure E (Some tlsConfig) h))"

fun SSHClientConfig :: "('idf, 'ssh) env \<Rightarrow> Credentials \<Rightarrow> error + 'ssh" where
  "SSHClientConfig E (TLSConfigCreds tlsConfig) = Inl (NotImplemented ''no ssh config'')"
| "SSHClientConfig E (KeyPairCreds certFile keyFile caFile) =
     Inl (NotImplemented ''no ssh config'')"
| "SSHClientConfig E (IdentityCreds path) =
     (case ReadIdentityFile E path of
        Inl err \<Rightarrow> Inl (BadParameter (''identity file could not be decoded: '' @ Error err))
      | Inr identityFile \<Rightarrow>
          (case IdentityFile_SSHClientConfig E identityFile of
             Inl err \<Rightarrow> Inl (Wrap err)
           | Inr sshConfig \<Rightarrow> Inr sshConfig))"

section \<open>The authority acceptance suite (lib/auth/test/suite.go)\<close>

subsection \<open>Instants and durations\<close>

text \<open>
  A \<^verbatim>\<open>time.Duration\<close> is a number of nanoseconds; the suite builds its durations from
  the constants below. An instant is what Go's \<^verbatim>\<open>time.Time\<close> holds apart from its
  location and its monotonic reading: the seconds since January 1 of year 1, a signed
  64-bit number, and the nanoseconds within that second, from 0 to 999999999. The
  operations are those of the standard library. The seconds wrap around as
  \<^verbatim>\<open>int64\<close> arithmetic does, in \<^verbatim>\<open>time.Unix\<close> and in \<^verbatim>\<open>t.Unix()\<close>; in
  \<^verbatim>\<open>t.Add\<close> they stop at the bounds (\<^verbatim>\<open>addSec\<close>).
\<close>

type_synonym Duration = int

record Time =
  Time_sec :: "64 word"
  Time_nsec :: int

definition Second :: Duration where
  "Second = 1000000000"

definition Minute :: Duration where
  "Minute = 60 * Second"

definition Hour :: Duration where
  "Hour = 60 * Minute"

text \<open>Go's integer division \<^verbatim>\<open>/\<close> rounds towards zero, and \<^verbatim>\<open>%\<close> is its remainder.\<close>

definition quo :: "int \<Rightarrow> int \<Rightarrow> int" where
  "quo a b = sgn a * sgn b * (\<bar>a\<bar> div \<bar>b\<bar>)"

definition rem :: "int \<Rightarrow> int \<Rightarrow> int" where
  "rem a b = a - quo a b * b"

definition unixToInternal :: "64 word" where
  "unixToInternal = 62135596800"

definition internalToUnix :: "64 word" where
  "internalToUnix = - unixToInternal"

text \<open>\<^verbatim>\<open>time.Unix(sec, nsec)\<close>.\<close>

definition time_Unix :: "64 word \<Rightarrow> int \<Rightarrow> Time" where
  "time_Unix sec nsec =
     (if nsec < 0 \<or> nsec \<ge> 1000000000
      then
        let n = quo nsec 1000000000;
            sec = sec + word_of_int n;
            nsec = nsec - n * 1000000000
        in if nsec < 0
           then \<lparr>Time_sec = (sec - 1) + unixToInternal, Time_nsec = nsec + 1000000000\<rparr>
           else \<lparr>Time_sec = sec + unixToInternal, Time_nsec = nsec\<rparr>
      else \<lparr>Time_sec = sec + unixToInternal, Time_nsec = nsec\<rparr>)"

text \<open>\<^verbatim>\<open>t.Unix()\<close>, an \<^verbatim>\<open>int64\<close>: the result is the 64-bit number, read with \<open>sint\<close>.\<close>

definition Time_Unix :: "Time \<Rightarrow> 64 word" where
  "Time_Unix t = Time_sec t + internalToUnix"

text \<open>
  \<^verbatim>\<open>t.addSec(d)\<close>: the sum, unless it overflows; then the largest second, or the
  negative of it.
\<close>

definition addSec :: "Time \<Rightarrow> int \<Rightarrow> Time" where
  "addSec t d =
     (let sum = Time_sec t + word_of_int d
      in if (sint (Time_sec t) < sint sum) = (0 < d) then t\<lparr>Time_sec := sum\<rparr>
         else if 0 < d then t\<lparr>Time_sec := 9223372036854775807\<rparr>
         else t\<lparr>Time_sec := - 9223372036854775807\<rparr>)"

text \<open>\<^verbatim>\<open>t.Add(d)\<close>.\<close>

definition Time_Add :: "Time \<Rightarrow> Duration \<Rightarrow> Time" where
  "Time_Add t d =
     (let dsec = quo d 1000000000;
          nsec = Time_nsec t + rem d 1000000000
      in if nsec \<ge> 1000000000
         then addSec (t\<lparr>Time_nsec := nsec - 1000000000\<rparr>) (dsec + 1)
         else if nsec < 0
         then addSec (t\<lparr>Time_nsec := nsec + 1000000000\<rparr>) (dsec - 1)
         else addSec (t\<lparr>Time_nsec := nsec\<rparr>) dsec)"

text \<open>\<^verbatim>\<open>t.UTC()\<close> changes the location only.\<close>

definition Time_UTC :: "Time \<Rightarrow> Time" where
  "Time_UTC t = t"

text \<open>
  \<^verbatim>\<open>t.Equal(u)\<close> where one of the two has no monotonic reading, as every instant
  that \<^verbatim>\<open>time.Unix\<close> returns: the same second and the same nanosecond.
\<close>

definition Time_Equal :: "Time \<Rightarrow> Time \<Rightarrow> bool" where
  "Time_Equal t u = (Time_sec t = Time_sec u \<and> Time_nsec t = Time_nsec u)"

subsection \<open>Certificates and signing parameters\<close>

text \<open>
  The fields of \<^verbatim>\<open>ssh.Certificate\<close> that the suite reads: two unsigned 64-bit
  numbers of seconds and the extension map. Indexing a Go map at a missing key gives the
  empty string.
\<close>

record ssh_Certificate =
  ValidAfter :: "64 word"
  ValidBefore :: "64 word"
  Extensions :: "string \<rightharpoonup> string"

text \<open>
  The conversion \<^verbatim>\<open>int64(x)\<close> of an unsigned 64-bit number keeps its 64 bits; what
  changes is how they are read (\<open>sint\<close> in place of \<open>unat\<close>).
\<close>

definition int64 :: "64 word \<Rightarrow> 64 word" where
  "int64 x = x"

definition index :: "(string \<rightharpoonup> string) \<Rightarrow> string \<Rightarrow> string" where
  "index m k = (case m k of None \<Rightarrow> '''' | Some v \<Rightarrow> v)"

text \<open>
  The fields of the two parameter structs that the suite sets; a field that a call leaves
  out has its zero value.
\<close>

record 'sg HostCertParams =
  CASigner :: 'sg
  PublicHostKey :: bytes
  HostID :: string
  NodeName :: string
  ClusterName :: string
  Role :: string
  TTL :: Duration

record 'sg UserCertParams =
  CASigner :: 'sg
  PublicUserKey :: bytes
  Username :: string
  Impersonator :: string
  AllowedLogins :: "string list"
  TTL :: Duration
  PermitAgentForwarding :: bool
  PermitPortForwarding :: bool
  CertificateFormat :: string
  Roles :: "string list"

subsection \<open>The suite and what it imports\<close>

text \<open>
  \<^verbatim>\<open>AuthSuite\<close> holds the authority under test (field \<^verbatim>\<open>A\<close>, with its two signing
  operations), a key generator and a clock. Each signing call is a request and a
  response, and the clock is fixed for the duration of a check sequence, so the
  operations are functions of their parameters and the clock is its reading.
\<close>

record 'sg AuthSuite =
  A_GenerateHostCert :: "'sg HostCertParams \<Rightarrow> error + bytes"
  A_GenerateUserCert :: "'sg UserCertParams \<Rightarrow> error + bytes"
  Keygen :: "error + bytes \<times> bytes"
  Clock_Now :: Time

text \<open>
  The parsers and constants of other packages: \<^verbatim>\<open>ssh.ParsePrivateKey\<close>,
  \<^verbatim>\<open>sshutils.ParseCertificate\<close>, \<^verbatim>\<open>services.UnmarshalCertRoles\<close>,
  \<^verbatim>\<open>types.RoleAdmin\<close>, \<^verbatim>\<open>constants.CertificateFormatStandard\<close>,
  \<^verbatim>\<open>apidefaults.MinCertDuration\<close> and the two extension keys.
\<close>

record 'sg lib =
  ParsePrivateKey :: "bytes \<Rightarrow> error + 'sg"
  ParseCertificate :: "bytes \<Rightarrow> error + ssh_Certificate"
  UnmarshalCertRoles :: "string \<Rightarrow> error + string list"
  RoleAdmin :: string
  CertificateFormatStandard :: string
  MinCertDuration :: Duration
  CertExtensionTeleportRoles :: string
  CertExtensionImpersonator :: string

subsection \<open>Assertions\<close>

text \<open>
  A failed \<^verbatim>\<open>require\<close> assertion stops the test at once. \<open>FailNow n\<close> records the
  source line of the assertion that failed.
\<close>

datatype verdict = Pass | FailNow nat

definition require_NoError :: "nat \<Rightarrow> error + 'a \<Rightarrow> ('a \<Rightarrow> verdict) \<Rightarrow> verdict" where
  "require_NoError line r k = (case r of Inl err \<Rightarrow> FailNow line | Inr v \<Rightarrow> k v)"

definition require_Nil :: "nat \<Rightarrow> error option \<Rightarrow> verdict \<Rightarrow> verdict" where
  "require_Nil line err k = (case err of Some e \<Rightarrow> FailNow line | None \<Rightarrow> k)"

definition require_Equal :: "nat \<Rightarrow> 'a \<Rightarrow> 'a \<Rightarrow> verdict \<Rightarrow> verdict" where
  "require_Equal line x y k = (if x = y then k else FailNow line)"

text \<open>\<^verbatim>\<open>require.Empty(t, cmp.Diff(x, y))\<close>: the difference is empty when the values are equal.\<close>

definition require_Empty_Diff :: "nat \<Rightarrow> 'a \<Rightarrow> 'a \<Rightarrow> verdict \<Rightarrow> verdict" where
  "require_Empty_Diff line x y k = (if x = y then k else FailNow line)"

subsection \<open>checkCertExpiry\<close>

text \<open>
  The result is \<open>None\<close> for a nil error. The two messages leave out the formatted
  instants that the source appends.
\<close>

definition checkCertExpiry :: "'sg lib \<Rightarrow> bytes \<Rightarrow> Time \<Rightarrow> Time \<Rightarrow> error option" where
  "checkCertExpiry L cert after before =
     (case ParseCertificate L cert of
        Inl err \<Rightarrow> Some (Wrap err)
      | Inr certificate \<Rightarrow>
          let validAfter = time_Unix (int64 (ValidAfter certificate)) 0 in
          if \<not> Time_Equal validAfter after then Some (BadParameter ''ValidAfter incorrect'')
          else
            let validBefore = time_Unix (int64 (ValidBefore certificate)) 0 in
            if \<not> Time_Equal validBefore before
            then Some (BadParameter ''ValidBefore incorrect'')
            else None)"

subsection \<open>GenerateHostCert\<close>

definition AuthSuite_GenerateHostCert :: "'sg lib \<Rightarrow> 'sg AuthSuite \<Rightarrow> verdict" where
  "AuthSuite_GenerateHostCert L s =
     require_NoError 61 (Keygen s) (\<lambda>(priv, pub).
     require_NoError 64 (ParsePrivateKey L priv) (\<lambda>caSigner.
     require_NoError 76
       (A_GenerateHostCert s
          \<lparr>HostCertParams.CASigner = caSigner,
           PublicHostKey = pub,
           HostID = ''00000000-0000-0000-0000-000000000000'',
           NodeName = ''auth.example.com'',
           ClusterName = ''example.com'',
           Role = RoleAdmin L,
           HostCertParams.TTL = Hour\<rparr>) (\<lambda>cert.
     require_NoError 79 (ParseCertificate L cert) (\<lambda>certificate.
     let validAfter = time_Unix (int64 (ValidAfter certificate)) 0 in
     require_Equal 83 (Time_Unix validAfter)
       (Time_Unix (Time_Add (Time_UTC (Clock_Now s)) (-1 * Minute))) (
     let validBefore = time_Unix (int64 (ValidBefore certificate)) 0 in
     require_Equal 87 (Time_Unix validBefore)
       (Time_Unix (Time_Add (Time_UTC (Clock_Now s)) (1 * Hour)))
     Pass)))))"

subsection \<open>GenerateUserCert\<close>

text \<open>
  The variable \<^verbatim>\<open>cert\<close> is assigned by the first, the second and the fifth signing
  call; the third and the fourth call discard the certificate they return.
\<close>

definition AuthSuite_GenerateUserCert :: "'sg lib \<Rightarrow> 'sg AuthSuite \<Rightarrow> verdict" where
  "AuthSuite_GenerateUserCert L s =
     require_NoError 92 (Keygen s) (\<lambda>(priv, pub).
     require_NoError 95 (ParsePrivateKey L priv) (\<lambda>caSigner.
     require_NoError 107
       (A_GenerateUserCert s
          \<lparr>UserCertParams.CASigner = caSigner,
           PublicUserKey = pub,
           Username = ''user'',
           Impersonator = '''',
           AllowedLogins = [''centos'', ''root''],
           UserCertParams.TTL = Hour,
           PermitAgentForwarding = True,
           PermitPortForwarding = True,
           CertificateFormat = CertificateFormatStandard L,
           Roles = []\<rparr>) (\<lambda>cert.
     require_Nil 112
       (checkCertExpiry L cert (Time_Add (Clock_Now s) (-1 * Minute))
          (Time_Add (Clock_Now s) (1 * Hour))) (
     require_NoError 124
       (A_GenerateUserCert s
          \<lparr>UserCertParams.CASigner = caSigner,
           PublicUserKey = pub,
           Username = ''user'',
           Impersonator = '''',
           AllowedLogins = [''root''],
           UserCertParams.TTL = -20,
           PermitAgentForwarding = True,
           PermitPortForwarding = True,
           CertificateFormat = CertificateFormatStandard L,
           Roles = []\<rparr>) (\<lambda>cert.
     require_Nil 126
       (checkCertExpiry L cert (Time_Add (Clock_Now s) (-1 * Minute))
          (Time_Add (Clock_Now s) (MinCertDuration L))) (
     require_NoError 138
       (A_GenerateUserCert s
          \<lparr>UserCertParams.CASigner = caSigner,
           PublicUserKey = pub,
           Username = ''user'',
           Impersonator = '''',
           AllowedLogins = [''root''],
           UserCertParams.TTL = 0,
           PermitAgentForwarding = True,
           PermitPortForwarding = True,
           CertificateFormat = CertificateFormatStandard L,
           Roles = []\<rparr>) (\<lambda>_.
     require_Nil 140
       (checkCertExpiry L cert (Time_Add (Clock_Now s) (-1 * Minute))
          (Time_Add (Clock_Now s) (MinCertDuration L))) (
     require_NoError 152
       (A_GenerateUserCert s
          \<lparr>UserCertParams.CASigner = caSigner,
           PublicUserKey = pub,
           Username = ''user'',
           Impersonator = '''',
           AllowedLogins = [''root''],
           UserCertParams.TTL = Hour,
           PermitAgentForwarding = True,
           PermitPortForwarding = True,
           CertificateFormat = CertificateFormatStandard L,
           Roles = []\<rparr>) (\<lambda>_.
     let inRoles = [''role-1'', ''role-2''];
         impersonator = ''alice''
     in
     require_NoError 168
       (A_GenerateUserCert s
          \<lparr>UserCertParams.CASigner = caSigner,
           PublicUserKey = pub,
           Username = ''user'',
           Impersonator = impersonator,
           AllowedLogins = [''root''],
           UserCertParams.TTL = Hour,
           PermitAgentForwarding = True,
           PermitPortForwarding = True,
           CertificateFormat = CertificateFormatStandard L,
           Roles = inRoles\<rparr>) (\<lambda>cert.
     require_NoError 170 (ParseCertificate L cert) (\<lambda>parsedCert.
     require_NoError 172
       (UnmarshalCertRoles L
          (index (Extensions parsedCert) (CertExtensionTeleportRoles L))) (\<lambda>outRoles.
     require_Empty_Diff 173 outRoles inRoles (
     let outImpersonator = index (Extensions parsedCert) (CertExtensionImpersonator L) in
     require_Empty_Diff 176 outImpersonator impersonator
     Pass)))))))))))))"

section \<open>The error taxonomy of the specification\<close>

text \<open>
  The specification names classes of errors and not the values of the code. These three
  predicates follow its words: \<^emph>\<open>UnsupportedCapability\<close> is what the code reports with
  \<^verbatim>\<open>trace.NotImplemented\<close>, \<^emph>\<open>MalformedInput\<close> is what it reports with
  \<^verbatim>\<open>trace.BadParameter\<close>, and \<^emph>\<open>IOFailure\<close> is the error of a failed file read
  (missing file, permission denied), as the reader returned it or as converted.
\<close>

definition spec_UnsupportedCapability :: "error \<Rightarrow> bool" where
  "spec_UnsupportedCapability e = (case e of NotImplemented _ \<Rightarrow> True | _ \<Rightarrow> False)"

definition spec_MalformedInput :: "error \<Rightarrow> bool" where
  "spec_MalformedInput e = (case e of BadParameter _ \<Rightarrow> True | _ \<Rightarrow> False)"

definition spec_IOFailure :: "error \<Rightarrow> bool" where
  "spec_IOFailure e =
     (case e of NotFound _ \<Rightarrow> True | AccessDenied _ \<Rightarrow> True | PathError _ \<Rightarrow> True
      | _ \<Rightarrow> False)"

section \<open>The authority as the specification describes it\<close>






section \<open>Sample inputs\<close>

text \<open>
  A small file system for the credential providers: a certificate and key that load, a
  CA bundle that parses, one that does not, and no identity file.
\<close>

definition sample_env :: "(unit, unit) env" where
  "sample_env =
     \<lparr>APIDomain = ''teleport.cluster.local'',
      NextProtoTLS = ''h2'',
      LoadX509KeyPair = (\<lambda>certFile keyFile.
        if certFile = ''cert.pem'' \<and> keyFile = ''key.pem''
        then Inr \<lparr>Certificate = [[1]], PrivateKey = [2]\<rparr>
        else Inl (PathError ''no such file or directory'')),
      ReadFile = (\<lambda>name.
        if name = ''ca.pem'' then Inr [3]
        else if name = ''garbage.pem'' then Inr [0]
        else Inl (PathError ''no such file or directory'')),
      ConvertSystemError = (\<lambda>err. case err of PathError m \<Rightarrow> NotFound m | _ \<Rightarrow> err),
      AppendCertsFromPEM = (\<lambda>pool cas.
        if cas = [0] then (False, pool) else (True, pool @ [cas])),
      ReadIdentityFile = (\<lambda>path. Inl (PathError ''no such file or directory'')),
      IdentityFile_TLSConfig = (\<lambda>identityFile. Inl (OtherError ''no TLS material'')),
      IdentityFile_SSHClientConfig = (\<lambda>identityFile. Inl (OtherError ''no SSH material''))\<rparr>"

definition cert_a :: tls_Certificate where
  "cert_a = \<lparr>Certificate = [[10]], PrivateKey = [11]\<rparr>"

definition cert_b :: tls_Certificate where
  "cert_b = \<lparr>Certificate = [[20]], PrivateKey = [21]\<rparr>"

definition sample_heap :: heap where
  "sample_heap =
     [\<lparr>Certificates = [cert_a, cert_b], GetClientCertificate = None, RootCAs = None,
       NextProtos = [''http/1.1''], ServerName = ''''\<rparr>,
      \<lparr>Certificates = [], GetClientCertificate = None, RootCAs = None,
       NextProtos = [], ServerName = ''auth.example.com''\<rparr>]"

text \<open>
  For the suite: a parser that knows five certificates, a clock at second 1000 and two
  authorities. Both answer a negative TTL with the window that ends a minimum duration
  after the clock's reading (certificate 2). At TTL zero the first does the same, and
  the second signs a window that ends at the clock's reading (certificate 3).
\<close>

definition sample_lib :: "unit lib" where
  "sample_lib =
     \<lparr>ParsePrivateKey = (\<lambda>priv. Inr ()),
      ParseCertificate = (\<lambda>cert.
        if cert = [1] then Inr \<lparr>ValidAfter = 940, ValidBefore = 4600, Extensions = Map.empty\<rparr>
        else if cert = [2]
        then Inr \<lparr>ValidAfter = 940, ValidBefore = 1060, Extensions = Map.empty\<rparr>
        else if cert = [3]
        then Inr \<lparr>ValidAfter = 940, ValidBefore = 1000, Extensions = Map.empty\<rparr>
        else if cert = [4]
        then Inr \<lparr>ValidAfter = 940, ValidBefore = 4600,
                  Extensions = [''teleport-roles'' \<mapsto> ''role-1,role-2'',
                                ''impersonator'' \<mapsto> ''alice'']\<rparr>
        else if cert = [5]
        then Inr \<lparr>ValidAfter = 9223372036854775778, ValidBefore = 9223372036854779438,
                  Extensions = Map.empty\<rparr>
        else Inl (OtherError ''not a certificate'')),
      UnmarshalCertRoles = (\<lambda>data.
        if data = ''role-1,role-2'' then Inr [''role-1'', ''role-2'']
        else Inl (OtherError ''not a role list'')),
      RoleAdmin = ''Admin'',
      CertificateFormatStandard = ''standard'',
      MinCertDuration = Minute,
      CertExtensionTeleportRoles = ''teleport-roles'',
      CertExtensionImpersonator = ''impersonator''\<rparr>"

definition clamping_suite :: "unit AuthSuite" where
  "clamping_suite =
     \<lparr>A_GenerateHostCert = (\<lambda>params. Inr [1]),
      A_GenerateUserCert = (\<lambda>params.
        if Roles params \<noteq> [] then Inr [4]
        else if UserCertParams.TTL params \<le> 0 then Inr [2]
        else Inr [1]),
      Keygen = Inr ([], []),
      Clock_Now = time_Unix 1000 0\<rparr>"

definition lax_suite :: "unit AuthSuite" where
  "lax_suite =
     \<lparr>A_GenerateHostCert = (\<lambda>params. Inr [1]),
      A_GenerateUserCert = (\<lambda>params.
        if Roles params \<noteq> [] then Inr [4]
        else if UserCertParams.TTL params < 0 then Inr [2]
        else if UserCertParams.TTL params = 0 then Inr [3]
        else Inr [1]),
      Keygen = Inr ([], []),
      Clock_Now = time_Unix 1000 0\<rparr>"

text \<open>
  A suite whose clock stands 30 seconds after the earliest second that
  \<^verbatim>\<open>time.Unix\<close> takes; its authority signs certificate 5.
\<close>

definition early_suite :: "unit AuthSuite" where
  "early_suite =
     \<lparr>A_GenerateHostCert = (\<lambda>params. Inr [5]),
      A_GenerateUserCert = (\<lambda>params. Inl (OtherError ''no user certificates'')),
      Keygen = Inr ([], []),
      Clock_Now = time_Unix (- 9223372036854775808 + 30) 0\<rparr>"



section \<open>Properties of the credential providers\<close>

subsection \<open>Auxiliary facts\<close>

text \<open>
  On an allocated address \<open>configure\<close> returns the next free address and leaves the
  old store as a prefix of the new one.
\<close>

lemma configure_Some:
  assumes "a < length h"
  shows "configure E (Some a) h =
     (Inr (length h),
      h @ [(h ! a)\<lparr>Certificates := [],
                   GetClientCertificate :=
                     (if Certificates (h ! a) = [] then GetClientCertificate (h ! a)
                      else Some (\<lambda>_. Inr (Certificates (h ! a) ! 0))),
                   NextProtos := [NextProtoTLS E],
                   ServerName := (if ServerName (h ! a) = '''' then APIDomain E
                                  else ServerName (h ! a))\<rparr>])"
  using assms by (simp add: configure_def Clone_def new_def Let_def nth_append)

lemma sample_heap_length: "length sample_heap = 2"
  by (simp add: sample_heap_def)

lemma sample_heap_0:
  "sample_heap ! 0 =
     \<lparr>Certificates = [cert_a, cert_b], GetClientCertificate = None, RootCAs = None,
      NextProtos = [''http/1.1''], ServerName = ''''\<rparr>"
  by (simp add: sample_heap_def)

lemma sample_heap_1:
  "sample_heap ! Suc 0 =
     \<lparr>Certificates = [], GetClientCertificate = None, RootCAs = None,
      NextProtos = [], ServerName = ''auth.example.com''\<rparr>"
  by (simp add: sample_heap_def)

lemma sample_env_APIDomain: "APIDomain sample_env = ''teleport.cluster.local''"
  by (simp add: sample_env_def)

subsection \<open>Claims\<close>

text \<open>
  C1. For every input configuration with at least one client certificate, the
  configuration that \<open>configure\<close> returns has an empty static certificate list and a
  client-certificate callback that answers every certificate request with the first
  certificate of the input's list, and with no error.
\<close>

theorem configure_installs_callback:
  assumes "a < length h" and "Certificates (h ! a) \<noteq> []"
  shows "\<exists>t h' cb. configure E (Some a) h = (Inr t, h') \<and> t < length h'
           \<and> Certificates (h' ! t) = []
           \<and> GetClientCertificate (h' ! t) = Some cb
           \<and> (\<forall>req. cb req = Inr (Certificates (h ! a) ! 0))"
  using assms by (simp add: configure_Some)

theorem configure_installs_callback_witness:
  "0 < length sample_heap \<and> Certificates (sample_heap ! 0) \<noteq> []
   \<and> (\<exists>t h' cb. configure sample_env (Some 0) sample_heap = (Inr t, h') \<and> t < length h'
           \<and> Certificates (h' ! t) = []
           \<and> GetClientCertificate (h' ! t) = Some cb
           \<and> (\<forall>req. cb req = Inr cert_a))"
  using configure_installs_callback [of 0 sample_heap sample_env]
  by (simp add: sample_heap_length sample_heap_0)

text \<open>
  C5. For every input configuration, with or without certificates, the configuration
  that \<open>configure\<close> returns has the input's server name when that is not empty, and
  the API domain constant when it is empty.
\<close>

theorem configure_server_name:
  assumes "a < length h"
  shows "\<exists>t h'. configure E (Some a) h = (Inr t, h') \<and> t < length h'
           \<and> (ServerName (h ! a) \<noteq> '''' \<longrightarrow> ServerName (h' ! t) = ServerName (h ! a))
           \<and> (ServerName (h ! a) = '''' \<longrightarrow> ServerName (h' ! t) = APIDomain E)"
  using assms by (simp add: configure_Some)

theorem configure_server_name_witness:
  "(\<exists>t h'. configure sample_env (Some 1) sample_heap = (Inr t, h')
           \<and> ServerName (h' ! t) = ''auth.example.com'')
   \<and> (\<exists>t h'. configure sample_env (Some 0) sample_heap = (Inr t, h')
           \<and> ServerName (h' ! t) = ''teleport.cluster.local'')"
  using configure_server_name [of 1 sample_heap sample_env]
    configure_server_name [of 0 sample_heap sample_env]
  by (auto simp add: sample_heap_length sample_heap_0 sample_heap_1 sample_env_APIDomain)

text \<open>
  C6. \<open>configure\<close> does not change the configuration it is given: the returned
  address is a new one, and after the call the input address, like every address that
  was allocated before, holds the configuration it held before, in every field.
\<close>

theorem configure_keeps_input:
  assumes "a < length h"
  shows "\<exists>t h'. configure E (Some a) h = (Inr t, h') \<and> t \<noteq> a \<and> h' ! a = h ! a
           \<and> (\<forall>b < length h. h' ! b = h ! b)"
  using assms by (simp add: configure_Some nth_append)

theorem configure_keeps_input_witness:
  "0 < length sample_heap
   \<and> (\<exists>t h'. configure sample_env (Some 0) sample_heap = (Inr t, h') \<and> t \<noteq> 0
         \<and> h' ! 0 = sample_heap ! 0 \<and> h' ! 1 = sample_heap ! 1)"
  using configure_keeps_input [of 0 sample_heap sample_env]
  by (auto simp add: sample_heap_length)

text \<open>
  C7. A capability that a credential source does not support fails with
  \<^verbatim>\<open>NotImplemented\<close> and yields no value: \<open>Dialer\<close> on every source, and
  \<open>SSHClientConfig\<close> on the sources built from a TLS configuration and from file
  paths.
\<close>

theorem unsupported_capabilities:
  "(\<forall>c. Dialer c = Inl (NotImplemented ''no dialer''))
   \<and> SSHClientConfig E (TLSConfigCreds tlsConfig) = Inl (NotImplemented ''no ssh config'')
   \<and> SSHClientConfig E (KeyPairCreds certFile keyFile caFile)
        = Inl (NotImplemented ''no ssh config'')
   \<and> spec_UnsupportedCapability (NotImplemented ''no dialer'')
   \<and> spec_UnsupportedCapability (NotImplemented ''no ssh config'')"
proof -
  have "Dialer c = Inl (NotImplemented ''no dialer'')" for c
    by (cases c) simp_all
  then show ?thesis by (simp add: spec_UnsupportedCapability_def)
qed

text \<open>
  C8. When the certificate and key have loaded and the CA bundle has been read, but
  the bundle does not parse as PEM, \<open>TLSConfig\<close> on a file-path source fails with
  \<^verbatim>\<open>BadParameter\<close>; it returns no configuration and the store holds none that it did
  not hold before.
\<close>

theorem bad_CA_bundle_is_rejected:
  assumes "LoadX509KeyPair E certFile keyFile = Inr cert"
    and "ReadFile E caFile = Inr cas"
    and "\<not> fst (AppendCertsFromPEM E NewCertPool cas)"
  shows "TLSConfig E (KeyPairCreds certFile keyFile caFile) h =
           (Inl (BadParameter ''invalid TLS CA cert PEM''), h)
         \<and> spec_MalformedInput (BadParameter ''invalid TLS CA cert PEM'')"
proof -
  obtain ok pool where ap: "AppendCertsFromPEM E NewCertPool cas = (ok, pool)"
    by (cases "AppendCertsFromPEM E NewCertPool cas")
  with assms(3) have "\<not> ok" by simp
  with assms(1,2) ap show ?thesis by (simp add: spec_MalformedInput_def)
qed

theorem bad_CA_bundle_is_rejected_witness:
  "LoadX509KeyPair sample_env ''cert.pem'' ''key.pem''
     = Inr \<lparr>Certificate = [[1]], PrivateKey = [2]\<rparr>
   \<and> ReadFile sample_env ''garbage.pem'' = Inr [0]
   \<and> \<not> fst (AppendCertsFromPEM sample_env NewCertPool [0])
   \<and> TLSConfig sample_env (KeyPairCreds ''cert.pem'' ''key.pem'' ''garbage.pem'') []
       = (Inl (BadParameter ''invalid TLS CA cert PEM''), [])"
proof -
  have 1: "LoadX509KeyPair sample_env ''cert.pem'' ''key.pem''
             = Inr \<lparr>Certificate = [[1]], PrivateKey = [2]\<rparr>"
    by (simp add: sample_env_def)
  have 2: "ReadFile sample_env ''garbage.pem'' = Inr [0]"
    by (simp add: sample_env_def)
  have 3: "\<not> fst (AppendCertsFromPEM sample_env NewCertPool [0])"
    by (simp add: sample_env_def)
  from bad_CA_bundle_is_rejected [OF 1 2 3, of "[]"] 1 2 3 show ?thesis by simp
qed

text \<open>
  C9. As stated, every unreadable file of a file-path or identity-file source makes
  both resolutions fail with an I/O failure. On an identity file that cannot be read,
  \<open>TLSConfig\<close> and \<open>SSHClientConfig\<close> fail with \<^verbatim>\<open>BadParameter\<close> instead, and on
  a file-path source none of whose files can be read \<open>SSHClientConfig\<close> fails with
  \<^verbatim>\<open>NotImplemented\<close>.
\<close>

theorem unreadable_identity_file_counterexample:
  "ReadIdentityFile sample_env ''identity'' = Inl (PathError ''no such file or directory'')
   \<and> TLSConfig sample_env (IdentityCreds ''identity'') []
       = (Inl (BadParameter
                 ''identity file could not be decoded: no such file or directory''), [])
   \<and> SSHClientConfig sample_env (IdentityCreds ''identity'')
       = Inl (BadParameter
                ''identity file could not be decoded: no such file or directory'')
   \<and> \<not> spec_IOFailure
         (BadParameter ''identity file could not be decoded: no such file or directory'')
   \<and> spec_MalformedInput
         (BadParameter ''identity file could not be decoded: no such file or directory'')
   \<and> LoadX509KeyPair sample_env ''missing.pem'' ''missing.key''
       = Inl (PathError ''no such file or directory'')
   \<and> ReadFile sample_env ''missing-ca.pem'' = Inl (PathError ''no such file or directory'')
   \<and> SSHClientConfig sample_env (KeyPairCreds ''missing.pem'' ''missing.key'' ''missing-ca.pem'')
       = Inl (NotImplemented ''no ssh config'')
   \<and> \<not> spec_IOFailure (NotImplemented ''no ssh config'')"
  by (simp add: sample_env_def spec_IOFailure_def spec_MalformedInput_def)

text \<open>
  C9, amended. When the certificate or key of a file-path source cannot be loaded,
  \<open>TLSConfig\<close> fails with the loader's error, unchanged; when its CA bundle cannot be
  read, with the converted read error. When the identity file cannot be read, both
  \<open>TLSConfig\<close> and \<open>SSHClientConfig\<close> fail with \<^verbatim>\<open>BadParameter\<close>, whose message
  carries the reader's. \<open>SSHClientConfig\<close> on a file-path source reads no file and
  fails with \<^verbatim>\<open>NotImplemented\<close>. No failure touches the store.
\<close>

theorem unreadable_file_errors:
  "(LoadX509KeyPair E certFile keyFile = Inl err \<longrightarrow>
      TLSConfig E (KeyPairCreds certFile keyFile caFile) h = (Inl err, h))
   \<and> (LoadX509KeyPair E certFile keyFile = Inr cert \<and> ReadFile E caFile = Inl err \<longrightarrow>
      TLSConfig E (KeyPairCreds certFile keyFile caFile) h
        = (Inl (ConvertSystemError E err), h))
   \<and> (ReadIdentityFile E path = Inl err \<longrightarrow>
      TLSConfig E (IdentityCreds path) h
        = (Inl (BadParameter (''identity file could not be decoded: '' @ Error err)), h)
      \<and> SSHClientConfig E (IdentityCreds path)
        = Inl (BadParameter (''identity file could not be decoded: '' @ Error err)))
   \<and> SSHClientConfig E (KeyPairCreds certFile keyFile caFile)
        = Inl (NotImplemented ''no ssh config'')"
  by (simp add: Wrap_def)

theorem unreadable_file_errors_witness:
  "LoadX509KeyPair sample_env ''missing.pem'' ''key.pem''
     = Inl (PathError ''no such file or directory'')
   \<and> TLSConfig sample_env (KeyPairCreds ''missing.pem'' ''key.pem'' ''ca.pem'') []
       = (Inl (PathError ''no such file or directory''), [])
   \<and> LoadX509KeyPair sample_env ''cert.pem'' ''key.pem''
       = Inr \<lparr>Certificate = [[1]], PrivateKey = [2]\<rparr>
   \<and> ReadFile sample_env ''missing.pem'' = Inl (PathError ''no such file or directory'')
   \<and> TLSConfig sample_env (KeyPairCreds ''cert.pem'' ''key.pem'' ''missing.pem'') []
       = (Inl (NotFound ''no such file or directory''), [])
   \<and> ReadIdentityFile sample_env ''identity'' = Inl (PathError ''no such file or directory'')
   \<and> SSHClientConfig sample_env (IdentityCreds ''identity'')
       = Inl (BadParameter ''identity file could not be decoded: no such file or directory'')"
  using
    unreadable_file_errors [of sample_env "''missing.pem''" "''key.pem''"
      "PathError ''no such file or directory''" "''ca.pem''" "[]" undefined "''identity''"]
    unreadable_file_errors [of sample_env "''cert.pem''" "''key.pem''"
      "PathError ''no such file or directory''" "''missing.pem''" "[]"
      "\<lparr>Certificate = [[1]], PrivateKey = [2]\<rparr>" "''identity''"]
  by (simp add: sample_env_def)

text \<open>
  C10. For an input configuration with more than one client certificate, the returned
  configuration keeps only the first: its static list is empty and its callback answers
  every request with the first certificate, so it never answers with a later certificate
  that differs from the first.
\<close>

theorem configure_keeps_first_certificate_only:
  assumes "a < length h" and "1 < length (Certificates (h ! a))"
  shows "\<exists>t h' cb. configure E (Some a) h = (Inr t, h') \<and> t < length h'
           \<and> set (Certificates (h' ! t)) = {}
           \<and> GetClientCertificate (h' ! t) = Some cb
           \<and> (\<forall>req. cb req = Inr (Certificates (h ! a) ! 0))
           \<and> (\<forall>req. \<forall>x \<in> set (tl (Certificates (h ! a))).
                 x \<noteq> Certificates (h ! a) ! 0 \<longrightarrow> cb req \<noteq> Inr x)"
proof -
  from assms(2) have "Certificates (h ! a) \<noteq> []" by auto
  with assms(1) show ?thesis by (simp add: configure_Some)
qed

theorem configure_keeps_first_certificate_only_witness:
  "0 < length sample_heap \<and> 1 < length (Certificates (sample_heap ! 0))
   \<and> cert_b \<in> set (tl (Certificates (sample_heap ! 0))) \<and> cert_b \<noteq> cert_a
   \<and> (\<exists>t h' cb. configure sample_env (Some 0) sample_heap = (Inr t, h')
         \<and> Certificates (h' ! t) = []
         \<and> GetClientCertificate (h' ! t) = Some cb
         \<and> (\<forall>req. cb req = Inr cert_a \<and> cb req \<noteq> Inr cert_b))"
  using configure_keeps_first_certificate_only [of 0 sample_heap sample_env]
  by (auto simp add: sample_heap_length sample_heap_0 cert_a_def cert_b_def)

section \<open>Properties of the acceptance suite\<close>

subsection \<open>Auxiliary facts\<close>

text \<open>A sequence of assertions passes when each of them holds and the rest passes.\<close>

lemma require_NoError_Pass:
  "require_NoError line r k = Pass \<longleftrightarrow> (\<exists>v. r = Inr v \<and> k v = Pass)"
  by (cases r) (simp_all add: require_NoError_def)

lemma require_Nil_Pass:
  "require_Nil line err k = Pass \<longleftrightarrow> err = None \<and> k = Pass"
  by (cases err) (simp_all add: require_Nil_def)

lemma require_Equal_Pass:
  "require_Equal line x y k = Pass \<longleftrightarrow> x = y \<and> k = Pass"
  by (simp add: require_Equal_def)

lemma require_Empty_Diff_Pass:
  "require_Empty_Diff line x y k = Pass \<longleftrightarrow> x = y \<and> k = Pass"
  by (simp add: require_Empty_Diff_def)

lemmas require_Pass =
  require_NoError_Pass require_Nil_Pass require_Equal_Pass require_Empty_Diff_Pass

text \<open>Reading the seconds of \<^verbatim>\<open>time.Unix(sec, 0)\<close> gives \<open>sec\<close> back, for every \<open>sec\<close>.\<close>

lemma Time_Unix_time_Unix: "Time_Unix (time_Unix sec 0) = sec"
  by (simp add: Time_Unix_def time_Unix_def internalToUnix_def)

text \<open>
  Away from the bounds of \<^verbatim>\<open>int64\<close> nothing wraps and nothing saturates: adding whole
  seconds to an instant adds them to its Unix seconds.
\<close>

lemma sint_add_in_range:
  fixes a :: "64 word"
  assumes "- 9223372036854775808 \<le> sint a + k" and "sint a + k < 9223372036854775808"
  shows "sint (a + word_of_int k) = sint a + k"
proof -
  have "a + word_of_int k = word_of_int (sint a + k)"
    by simp
  then have "sint (a + word_of_int k) = signed_take_bit 63 (sint a + k)"
    by (simp only: sint_sbintrunc') simp
  also have "\<dots> = sint a + k"
    using assms by (intro signed_take_bit_int_eq_self) simp_all
  finally show ?thesis .
qed

lemma Time_sec_of_Unix:
  assumes "- 4611686018427387904 \<le> sint (Time_Unix t)"
    and "sint (Time_Unix t) < 4611686018427387904"
  shows "sint (Time_sec t) = sint (Time_Unix t) + 62135596800"
proof -
  have "Time_sec t = Time_Unix t + word_of_int 62135596800"
    by (simp add: Time_Unix_def internalToUnix_def unixToInternal_def)
  then have "sint (Time_sec t) = sint (Time_Unix t + word_of_int 62135596800)"
    by simp
  also have "\<dots> = sint (Time_Unix t) + 62135596800"
    using assms by (intro sint_add_in_range) simp_all
  finally show ?thesis .
qed

lemma Time_Unix_addSec:
  assumes "- 4611686018427387904 \<le> sint (Time_Unix t)"
    and "sint (Time_Unix t) < 4611686018427387904"
    and "- 4294967296 \<le> d" and "d \<le> 4294967296"
  shows "sint (Time_Unix (addSec t d)) = sint (Time_Unix t) + d"
proof -
  have e: "sint (Time_sec t) = sint (Time_Unix t) + 62135596800"
    using assms(1,2) by (rule Time_sec_of_Unix)
  have s: "sint (Time_sec t + word_of_int d) = sint (Time_sec t) + d"
    using assms e by (intro sint_add_in_range) simp_all
  have u: "Time_Unix (addSec t d) = Time_Unix t + word_of_int d"
    using s by (simp add: addSec_def Time_Unix_def Let_def)
  have "sint (Time_Unix t + word_of_int d) = sint (Time_Unix t) + d"
    using assms by (intro sint_add_in_range) simp_all
  with u show ?thesis by simp
qed

lemma Time_Unix_Add_seconds:
  assumes "- 4611686018427387904 \<le> sint (Time_Unix t)"
    and "sint (Time_Unix t) < 4611686018427387904"
    and "0 \<le> Time_nsec t" and "Time_nsec t < 1000000000"
    and "- 4294967296 \<le> k" and "k \<le> 4294967296"
  shows "sint (Time_Unix (Time_Add t (k * Second))) = sint (Time_Unix t) + k"
proof -
  have q: "quo (k * Second) 1000000000 = k"
    by (simp add: quo_def Second_def sgn_if abs_mult)
  have r: "rem (k * Second) 1000000000 = 0"
    using q by (simp add: rem_def Second_def)
  have "Time_Add t (k * Second) = addSec t k"
    using assms(3,4) by (simp add: Time_Add_def q r Let_def)
  then show ?thesis
    using Time_Unix_addSec [OF assms(1,2,5,6)] by simp
qed

text \<open>The sample parser and the sample authorities, equation by equation.\<close>

lemma sample_lib_simps:
  "ParsePrivateKey sample_lib priv = Inr ()"
  "ParseCertificate sample_lib [1]
     = Inr \<lparr>ValidAfter = 940, ValidBefore = 4600, Extensions = Map.empty\<rparr>"
  "ParseCertificate sample_lib [2]
     = Inr \<lparr>ValidAfter = 940, ValidBefore = 1060, Extensions = Map.empty\<rparr>"
  "ParseCertificate sample_lib [3]
     = Inr \<lparr>ValidAfter = 940, ValidBefore = 1000, Extensions = Map.empty\<rparr>"
  "ParseCertificate sample_lib [4]
     = Inr \<lparr>ValidAfter = 940, ValidBefore = 4600,
            Extensions = [''teleport-roles'' \<mapsto> ''role-1,role-2'',
                          ''impersonator'' \<mapsto> ''alice'']\<rparr>"
  "ParseCertificate sample_lib [5]
     = Inr \<lparr>ValidAfter = 9223372036854775778, ValidBefore = 9223372036854779438,
            Extensions = Map.empty\<rparr>"
  "UnmarshalCertRoles sample_lib ''role-1,role-2'' = Inr [''role-1'', ''role-2'']"
  "RoleAdmin sample_lib = ''Admin''"
  "CertificateFormatStandard sample_lib = ''standard''"
  "MinCertDuration sample_lib = Minute"
  "CertExtensionTeleportRoles sample_lib = ''teleport-roles''"
  "CertExtensionImpersonator sample_lib = ''impersonator''"
  by (simp_all add: sample_lib_def)

lemma clamping_suite_simps:
  "A_GenerateHostCert clamping_suite hp = Inr [1]"
  "A_GenerateUserCert clamping_suite up =
     (if Roles up \<noteq> [] then Inr [4]
      else if UserCertParams.TTL up \<le> 0 then Inr [2]
      else Inr [1])"
  "Keygen clamping_suite = Inr ([], [])"
  "Clock_Now clamping_suite = time_Unix 1000 0"
  by (simp_all add: clamping_suite_def)

lemma lax_suite_simps:
  "A_GenerateHostCert lax_suite hp = Inr [1]"
  "A_GenerateUserCert lax_suite up =
     (if Roles up \<noteq> [] then Inr [4]
      else if UserCertParams.TTL up < 0 then Inr [2]
      else if UserCertParams.TTL up = 0 then Inr [3]
      else Inr [1])"
  "Keygen lax_suite = Inr ([], [])"
  "Clock_Now lax_suite = time_Unix 1000 0"
  by (simp_all add: lax_suite_def)

lemma early_suite_simps:
  "A_GenerateHostCert early_suite hp = Inr [5]"
  "Keygen early_suite = Inr ([], [])"
  "Clock_Now early_suite = time_Unix (- 9223372036854775808 + 30) 0"
  by (simp_all add: early_suite_def)

lemmas time_defs =
  Time_Add_def addSec_def Time_Equal_def Time_Unix_def Time_UTC_def time_Unix_def
  internalToUnix_def unixToInternal_def quo_def rem_def int64_def
  Second_def Minute_def Hour_def

text \<open>
  The host-certificate check follows the wrap-around of \<^verbatim>\<open>t.Unix()\<close>: with the clock
  30 seconds after the earliest second, one minute before it is a second near the
  latest one, and the check passes on the certificate that carries that second.
\<close>

lemma early_suite_host_passes:
  "AuthSuite_GenerateHostCert sample_lib early_suite = Pass"
  by (simp add: AuthSuite_GenerateHostCert_def require_Pass sample_lib_simps
      early_suite_simps time_defs)

lemma clamping_suite_host_passes:
  "AuthSuite_GenerateHostCert sample_lib clamping_suite = Pass"
  by (simp add: AuthSuite_GenerateHostCert_def require_Pass sample_lib_simps
      clamping_suite_simps time_defs)

subsection \<open>Claims\<close>

text \<open>
  C3. The host-certificate check passes only if the authority signs, for a TTL of one
  hour, a certificate that parses and whose \<open>ValidAfter\<close> is the second of the suite's
  clock less one minute and whose \<open>ValidBefore\<close> is the second of the suite's clock plus
  the TTL, both computed from \<open>Clock_Now\<close>, the clock injected into the suite, as
  \<^verbatim>\<open>t.Add\<close> and \<^verbatim>\<open>t.Unix()\<close> compute them. For a clock away from the bounds of
  \<^verbatim>\<open>int64\<close> these are the clock's Unix second less 60 and plus 3600.
\<close>

theorem host_cert_window_required:
  assumes "AuthSuite_GenerateHostCert L s = Pass"
  shows "\<exists>priv pub caSigner params cert certificate.
           Keygen s = Inr (priv, pub) \<and> ParsePrivateKey L priv = Inr caSigner
         \<and> params = \<lparr>HostCertParams.CASigner = caSigner,
                      PublicHostKey = pub,
                      HostID = ''00000000-0000-0000-0000-000000000000'',
                      NodeName = ''auth.example.com'',
                      ClusterName = ''example.com'',
                      Role = RoleAdmin L,
                      HostCertParams.TTL = Hour\<rparr>
         \<and> A_GenerateHostCert s params = Inr cert
         \<and> ParseCertificate L cert = Inr certificate
         \<and> int64 (ValidAfter certificate) = Time_Unix (Time_Add (Clock_Now s) (- Minute))
         \<and> int64 (ValidBefore certificate)
             = Time_Unix (Time_Add (Clock_Now s) (HostCertParams.TTL params))
         \<and> (0 \<le> Time_nsec (Clock_Now s) \<and> Time_nsec (Clock_Now s) < 1000000000
            \<and> - 4611686018427387904 \<le> sint (Time_Unix (Clock_Now s))
            \<and> sint (Time_Unix (Clock_Now s)) < 4611686018427387904
            \<longrightarrow> sint (int64 (ValidAfter certificate)) = sint (Time_Unix (Clock_Now s)) - 60
              \<and> sint (int64 (ValidBefore certificate))
                  = sint (Time_Unix (Clock_Now s)) + 3600)"
proof -
  from assms obtain priv pub caSigner cert certificate where
    k: "Keygen s = Inr (priv, pub)" and p: "ParsePrivateKey L priv = Inr caSigner"
    and g: "A_GenerateHostCert s
              \<lparr>HostCertParams.CASigner = caSigner,
               PublicHostKey = pub,
               HostID = ''00000000-0000-0000-0000-000000000000'',
               NodeName = ''auth.example.com'',
               ClusterName = ''example.com'',
               Role = RoleAdmin L,
               HostCertParams.TTL = Hour\<rparr> = Inr cert"
    and c: "ParseCertificate L cert = Inr certificate"
    and a: "int64 (ValidAfter certificate) = Time_Unix (Time_Add (Clock_Now s) (- Minute))"
    and b: "int64 (ValidBefore certificate) = Time_Unix (Time_Add (Clock_Now s) Hour)"
    by (auto simp add: AuthSuite_GenerateHostCert_def require_Pass Let_def
        Time_Unix_time_Unix Time_UTC_def)
  have m: "- Minute = (- 60) * Second" and h: "Hour = 3600 * Second"
    by (simp_all add: Minute_def Hour_def)
  have r: "sint (int64 (ValidAfter certificate)) = sint (Time_Unix (Clock_Now s)) - 60
           \<and> sint (int64 (ValidBefore certificate)) = sint (Time_Unix (Clock_Now s)) + 3600"
    if "0 \<le> Time_nsec (Clock_Now s)" "Time_nsec (Clock_Now s) < 1000000000"
      "- 4611686018427387904 \<le> sint (Time_Unix (Clock_Now s))"
      "sint (Time_Unix (Clock_Now s)) < 4611686018427387904"
  proof -
    have "sint (Time_Unix (Time_Add (Clock_Now s) ((- 60) * Second)))
            = sint (Time_Unix (Clock_Now s)) + (- 60)"
      using that by (intro Time_Unix_Add_seconds) simp_all
    moreover have "sint (Time_Unix (Time_Add (Clock_Now s) (3600 * Second)))
            = sint (Time_Unix (Clock_Now s)) + 3600"
      using that by (intro Time_Unix_Add_seconds) simp_all
    ultimately show ?thesis
      unfolding a b m h by simp
  qed
  from k p g c a b r show ?thesis
    by (intro exI [of _ priv] exI [of _ pub] exI [of _ caSigner] exI [of _ cert]
        exI [of _ certificate] exI) auto
qed

theorem host_cert_window_required_witness:
  "AuthSuite_GenerateHostCert sample_lib clamping_suite = Pass
   \<and> 0 \<le> Time_nsec (Clock_Now clamping_suite)
   \<and> Time_nsec (Clock_Now clamping_suite) < 1000000000
   \<and> sint (Time_Unix (Clock_Now clamping_suite)) = 1000
   \<and> (\<exists>cert certificate.
         A_GenerateHostCert clamping_suite
           \<lparr>HostCertParams.CASigner = (),
            PublicHostKey = [],
            HostID = ''00000000-0000-0000-0000-000000000000'',
            NodeName = ''auth.example.com'',
            ClusterName = ''example.com'',
            Role = ''Admin'',
            HostCertParams.TTL = Hour\<rparr> = Inr cert
       \<and> ParseCertificate sample_lib cert = Inr certificate
       \<and> sint (int64 (ValidAfter certificate)) = 940
       \<and> sint (int64 (ValidBefore certificate)) = 4600)"
proof -
  have n: "Time_nsec (Clock_Now clamping_suite) = 0"
    and u: "sint (Time_Unix (Clock_Now clamping_suite)) = 1000"
    by (simp_all add: clamping_suite_simps time_defs)
  from host_cert_window_required [OF clamping_suite_host_passes] n u
    clamping_suite_host_passes
  show ?thesis
    by (auto simp add: sample_lib_simps clamping_suite_simps)
qed








text \<open>
  C2. The claim is that the window of the certificate signed for TTL zero is checked
  like that of the certificate signed for TTL -20. The suite discards the certificate
  of the zero-TTL call and checks the one of the call before it a second time: an
  authority that clamps a negative TTL and signs, for TTL zero, a window that ends at
  the clock's reading passes, although that certificate fails the very check the suite
  applies.
\<close>

theorem zero_TTL_certificate_is_not_checked:
  "AuthSuite_GenerateUserCert sample_lib lax_suite = Pass
   \<and> A_GenerateUserCert lax_suite
       \<lparr>UserCertParams.CASigner = (),
        PublicUserKey = [],
        Username = ''user'',
        Impersonator = '''',
        AllowedLogins = [''root''],
        UserCertParams.TTL = 0,
        PermitAgentForwarding = True,
        PermitPortForwarding = True,
        CertificateFormat = CertificateFormatStandard sample_lib,
        Roles = []\<rparr> = Inr [3]
   \<and> checkCertExpiry sample_lib [3]
       (Time_Add (Clock_Now lax_suite) (-1 * Minute))
       (Time_Add (Clock_Now lax_suite) (MinCertDuration sample_lib))
       = Some (BadParameter ''ValidBefore incorrect'')"
  by (simp add: AuthSuite_GenerateUserCert_def require_Pass sample_lib_simps
      lax_suite_simps checkCertExpiry_def time_defs index_def)

end
